theory Spec2Isabelle
  imports Main "HOL-Library.Word"
begin

section \<open>JavaScript strings\<close>

text \<open>
  A JavaScript string is a sequence of UTF-16 code units. The regular expressions of the
  source carry no \<open>u\<close> flag, so they, like \<open>split\<close>, \<open>includes\<close> and \<open>trim\<close>,
  work on code units. String literals of the source are all ASCII; \<open>js\<close> writes one.
\<close>

type_synonym codeunit = "16 word"
type_synonym jsstring = "codeunit list"

definition js :: "string \<Rightarrow> jsstring" where
  "js s = map of_char s"

text \<open>\<open>a || b\<close> on an optional string: \<open>undefined\<close> and \<open>""\<close> are falsy.\<close>

definition truthy :: "jsstring option \<Rightarrow> bool" where
  "truthy v = (case v of None \<Rightarrow> False | Some s \<Rightarrow> s \<noteq> [])"

definition orElse :: "jsstring option \<Rightarrow> jsstring option \<Rightarrow> jsstring option" where
  "orElse a b = (if truthy a then a else b)"

text \<open>\<open>String.prototype.startsWith\<close> and \<open>includes\<close> with a string argument.\<close>

fun startsWith :: "jsstring \<Rightarrow> jsstring \<Rightarrow> bool" where
  "startsWith s [] = True"
| "startsWith [] (p # ps) = False"
| "startsWith (c # cs) (p # ps) = (c = p \<and> startsWith cs ps)"

fun includesStr :: "jsstring \<Rightarrow> jsstring \<Rightarrow> bool" where
  "includesStr [] p = (p = [])"
| "includesStr (c # cs) p = (startsWith (c # cs) p \<or> includesStr cs p)"

text \<open>
  \<open>s.split(sep)\<close> for a one-unit separator: always at least one part, one more than the
  number of separators in \<open>s\<close>.
\<close>

fun split :: "codeunit \<Rightarrow> jsstring \<Rightarrow> jsstring list" where
  "split sep [] = [[]]"
| "split sep (c # cs) =
     (if c = sep then [] # split sep cs
      else (case split sep cs of p # ps \<Rightarrow> (c # p) # ps | [] \<Rightarrow> [[c]]))"

text \<open>
  \<open>String.prototype.trim\<close> removes WhiteSpace and LineTerminator code units
  (ECMAScript 2023, 12.2 and 12.3) from both ends.
\<close>

definition isWhiteSpace :: "codeunit \<Rightarrow> bool" where
  "isWhiteSpace c \<longleftrightarrow>
     c = 0x0009 \<or> c = 0x000A \<or> c = 0x000B \<or> c = 0x000C \<or> c = 0x000D \<or> c = 0x0020 \<or>
     c = 0x00A0 \<or> c = 0x1680 \<or> (0x2000 \<le> c \<and> c \<le> 0x200A) \<or> c = 0x2028 \<or>
     c = 0x2029 \<or> c = 0x202F \<or> c = 0x205F \<or> c = 0x3000 \<or> c = 0xFEFF"

definition trimStart :: "jsstring \<Rightarrow> jsstring" where
  "trimStart s = dropWhile isWhiteSpace s"

definition trimEnd :: "jsstring \<Rightarrow> jsstring" where
  "trimEnd s = rev (dropWhile isWhiteSpace (rev s))"

definition trim :: "jsstring \<Rightarrow> jsstring" where
  "trim s = trimEnd (trimStart s)"

text \<open>
  \<open>String.prototype.toLowerCase\<close>, modelled on the code units \<open>A\<close> to \<open>Z\<close>; every other
  code unit is kept. (Unicode lower-casing also changes code units outside ASCII; the
  only one it maps to ASCII text is U+212A, to \<open>k\<close>, a letter that none of the
  lower-case property names looked up below contains.)
\<close>

definition lowerUnit :: "codeunit \<Rightarrow> codeunit" where
  "lowerUnit c = (if 0x41 \<le> c \<and> c \<le> 0x5A then c + 0x20 else c)"

definition toLowerCase :: "jsstring \<Rightarrow> jsstring" where
  "toLowerCase s = map lowerUnit s"

text \<open>\<open>String(n)\<close> for a non-negative integer: its decimal digits.\<close>

fun showNat :: "nat \<Rightarrow> jsstring" where
  "showNat n =
     (if n < 10 then [of_nat (48 + n)] else showNat (n div 10) @ [of_nat (48 + n mod 10)])"

declare showNat.simps [simp del]

section \<open>Message sanitizer (server2.ts)\<close>

text \<open>
  The character class of the first \<open>replace\<close>:
  \<open>[\u0000-\u0008\u000B\u000C\u000E-\u001F\u007F-\u009F]\<close>.
  It leaves out U+0009, U+000A and U+000D.
\<close>

definition isControlChar :: "codeunit \<Rightarrow> bool" where
  "isControlChar c \<longleftrightarrow>
     c \<le> 0x0008 \<or> c = 0x000B \<or> c = 0x000C \<or> (0x000E \<le> c \<and> c \<le> 0x001F) \<or>
     (0x007F \<le> c \<and> c \<le> 0x009F)"

text \<open>The two \<open>replace\<close> calls: every match of the pattern is deleted (flag \<open>g\<close>).\<close>

definition removeControlChars :: "jsstring \<Rightarrow> jsstring" where
  "removeControlChars s = filter (\<lambda>c. \<not> isControlChar c) s"

definition removeBOM :: "jsstring \<Rightarrow> jsstring" where
  "removeBOM s = filter (\<lambda>c. c \<noteq> 0xFEFF) s"

text \<open>
  \<open>sanitizeMessage(message)\<close>. The argument is \<open>None\<close> when the caller passes
  \<open>undefined\<close> (a missing \<open>message\<close> property): the guard
  \<open>!message || typeof message !== "string"\<close> then returns \<open>""\<close>, as it does for \<open>""\<close>.
\<close>

definition sanitizeMessage :: "jsstring option \<Rightarrow> jsstring" where
  "sanitizeMessage message =
     (case message of
        None \<Rightarrow> []
      | Some s \<Rightarrow> if s = [] then [] else trim (removeBOM (removeControlChars s)))"

section \<open>Base64 payloads (bas64.handler.ts)\<close>

text \<open>
  \<open>/^[A-Za-z0-9+/]*={0,2}$/.test(str)\<close>: \<open>=\<close> is outside the character class, so the
  star takes the longest prefix of alphabet characters and at most two \<open>=\<close> may follow,
  up to the end of the string (no \<open>m\<close> flag).
\<close>

definition isBase64Char :: "codeunit \<Rightarrow> bool" where
  "isBase64Char c \<longleftrightarrow>
     (0x41 \<le> c \<and> c \<le> 0x5A) \<or> (0x61 \<le> c \<and> c \<le> 0x7A) \<or> (0x30 \<le> c \<and> c \<le> 0x39) \<or>
     c = 0x2B \<or> c = 0x2F"

definition base64Regex_test :: "jsstring \<Rightarrow> bool" where
  "base64Regex_test str =
     (let rest = dropWhile isBase64Char str
      in rest = [] \<or> rest = [0x3D] \<or> rest = [0x3D, 0x3D])"

text \<open>
  \<open>Buffer.from(str, "base64")\<close> of Node.js, on the strings the program gives it: every
  one has passed \<open>base64Regex\<close> first. Each alphabet character carries six bits, a
  full group of four gives three bytes, a last group of three or two gives two or one,
  a single left-over character gives none, and the padding is dropped. On a string it
  does not throw.
\<close>

type_synonym byte = "8 word"

definition unbase64 :: "codeunit \<Rightarrow> nat" where
  "unbase64 c =
     (if 0x41 \<le> c \<and> c \<le> 0x5A then unat c - 65
      else if 0x61 \<le> c \<and> c \<le> 0x7A then unat c - 71
      else if 0x30 \<le> c \<and> c \<le> 0x39 then unat c + 4
      else if c = 0x2B then 62 else 63)"

fun decodeGroups :: "nat list \<Rightarrow> byte list" where
  "decodeGroups (a # b # c # d # rest) =
     [of_nat (a * 4 + b div 16), of_nat (b * 16 + c div 4), of_nat (c * 64 + d)]
     @ decodeGroups rest"
| "decodeGroups [a, b, c] = [of_nat (a * 4 + b div 16), of_nat (b * 16 + c div 4)]"
| "decodeGroups [a, b] = [of_nat (a * 4 + b div 16)]"
| "decodeGroups [a] = []"
| "decodeGroups [] = []"

definition bufferFromBase64 :: "jsstring \<Rightarrow> byte list" where
  "bufferFromBase64 str = decodeGroups (map unbase64 (takeWhile isBase64Char str))"

text \<open>\<open>Buffer.from(buffer).toString("base64")\<close>: standard base64 with padding.\<close>

definition base64Digit :: "nat \<Rightarrow> codeunit" where
  "base64Digit n =
     (if n < 26 then of_nat (65 + n) else if n < 52 then of_nat (71 + n)
      else if n < 62 then of_nat (n - 4) else if n = 62 then 0x2B else 0x2F)"

fun encodeGroups :: "nat list \<Rightarrow> jsstring" where
  "encodeGroups (x # y # z # rest) =
     [base64Digit (x div 4), base64Digit ((x mod 4) * 16 + y div 16),
      base64Digit ((y mod 16) * 4 + z div 64), base64Digit (z mod 64)] @ encodeGroups rest"
| "encodeGroups [x, y] =
     [base64Digit (x div 4), base64Digit ((x mod 4) * 16 + y div 16),
      base64Digit ((y mod 16) * 4), 0x3D]"
| "encodeGroups [x] = [base64Digit (x div 4), base64Digit ((x mod 4) * 16), 0x3D, 0x3D]"
| "encodeGroups [] = []"

definition toStringBase64 :: "byte list \<Rightarrow> jsstring" where
  "toStringBase64 buffer = encodeGroups (map unat buffer)"

text \<open>
  What the program does to the outside world, in order. The replies of the outside
  world (the chat client, \<open>fetch\<close>, the clock, the broker) are functions of everything
  that has happened so far, collected in \<open>env\<close> below. Console output is left out.
\<close>

datatype messageMedia = MessageMedia jsstring jsstring jsstring

datatype content = TextContent jsstring | MediaContent messageMedia

record deliveryOptions =
  linkPreview :: "bool option"
  isViewOnce :: "bool option"
  sendAudioAsVoice :: "bool option"

text \<open>
  The third argument of \<open>client.sendMessage\<close>: either \<open>messageData.options\<close> as it is
  (possibly \<open>undefined\<close>), or \<open>{caption: caption, ...messageData.options}\<close>.
\<close>

datatype sendOptions =
  Plain "deliveryOptions option"
| WithCaption jsstring "deliveryOptions option"

datatype event =
  BufferFrom jsstring
| SendMessage jsstring content sendOptions
| Fetch jsstring
| Delay nat
| Ack
| Nack bool

text \<open>
  A thrown value: an \<open>Error\<close> object with its name and message, or any other value with
  its \<open>String()\<close> form.
\<close>

datatype thrown = ErrorObject jsstring jsstring | OtherValue jsstring

text \<open>\<open>error instanceof Error ? error.message : String(error)\<close>\<close>

definition errorMessage :: "thrown \<Rightarrow> jsstring" where
  "errorMessage e = (case e of ErrorObject name msg \<Rightarrow> msg | OtherValue s \<Rightarrow> s)"

text \<open>\<open>`${error}`\<close>: \<open>Error.prototype.toString\<close> joins name and message.\<close>

definition showThrown :: "thrown \<Rightarrow> jsstring" where
  "showThrown e =
     (case e of
        ErrorObject name msg \<Rightarrow>
          if name = [] then msg else if msg = [] then name else name @ js '': '' @ msg
      | OtherValue s \<Rightarrow> s)"

definition newError :: "jsstring \<Rightarrow> thrown" where
  "newError msg = ErrorObject (js ''Error'') msg"

text \<open>
  \<open>isValidBase64\<close>. The decoder is called only after the test has passed; its
  \<open>catch\<close> is never entered, \<open>Buffer.from\<close> accepting every string.
\<close>

definition isValidBase64 :: "jsstring \<Rightarrow> event list \<Rightarrow> bool \<times> event list" where
  "isValidBase64 str t =
     (if \<not> base64Regex_test str then (False, t)
      else (True, t @ [BufferFrom str]))"

text \<open>
  The value of \<open>mimetypeMap[key]\<close>. \<open>mimetypeMap\<close> is an object literal, so a key that is
  not one of its own properties is looked up in \<open>Object.prototype\<close>.
\<close>

datatype propValue = StringValue jsstring | Inherited jsstring

definition mimetypeMap :: "(jsstring \<times> jsstring) list" where
  "mimetypeMap =
     [(js ''image/jpeg'', js ''jpg''),
      (js ''image/jpg'', js ''jpg''),
      (js ''image/png'', js ''png''),
      (js ''image/gif'', js ''gif''),
      (js ''image/webp'', js ''webp''),
      (js ''image/bmp'', js ''bmp''),
      (js ''image/svg+xml'', js ''svg''),
      (js ''image/tiff'', js ''tiff''),
      (js ''video/mp4'', js ''mp4''),
      (js ''video/avi'', js ''avi''),
      (js ''video/mov'', js ''mov''),
      (js ''audio/mp3'', js ''mp3''),
      (js ''audio/wav'', js ''wav''),
      (js ''audio/ogg'', js ''ogg''),
      (js ''application/pdf'', js ''pdf''),
      (js ''application/msword'', js ''doc''),
      (js ''application/vnd.openxmlformats-officedocument.wordprocessingml.document'',
       js ''docx'')]"

definition objectPrototypeNames :: "jsstring list" where
  "objectPrototypeNames =
     [js ''constructor'', js ''__defineGetter__'', js ''__defineSetter__'',
      js ''hasOwnProperty'', js ''__lookupGetter__'', js ''__lookupSetter__'',
      js ''isPrototypeOf'', js ''propertyIsEnumerable'', js ''toString'', js ''valueOf'',
      js ''__proto__'', js ''toLocaleString'']"

definition getProperty :: "(jsstring \<times> jsstring) list \<Rightarrow> jsstring \<Rightarrow> propValue option" where
  "getProperty obj key =
     (case map_of obj key of
        Some v \<Rightarrow> Some (StringValue v)
      | None \<Rightarrow> if key \<in> set objectPrototypeNames then Some (Inherited key) else None)"

text \<open>\<open>mimetypeMap[mimetype.toLowerCase()] || "bin"\<close>: only \<open>undefined\<close> and \<open>""\<close> are falsy.\<close>

definition getExtensionFromMimetype :: "jsstring \<Rightarrow> propValue" where
  "getExtensionFromMimetype mimetype =
     (case getProperty mimetypeMap (toLowerCase mimetype) of
        None \<Rightarrow> StringValue (js ''bin'')
      | Some (StringValue v) \<Rightarrow> if v = [] then StringValue (js ''bin'') else StringValue v
      | Some (Inherited name) \<Rightarrow> Inherited name)"

text \<open>
  \<open>`${value}`\<close> of a property value: the string itself; for an inherited member, what
  V8 prints for \<open>Object.prototype\<close> and for its built-in functions.
\<close>

definition showProp :: "propValue \<Rightarrow> jsstring" where
  "showProp v =
     (case v of
        StringValue s \<Rightarrow> s
      | Inherited name \<Rightarrow>
          if name = js ''__proto__'' then js ''[object Object]''
          else js ''function '' @ (if name = js ''constructor'' then js ''Object'' else name)
               @ js ''() { [native code] }'')"

text \<open>
  \<open>header.match(/data:([^;]+);base64/)\<close>, the first capture group. The search is not
  anchored: the leftmost position where the pattern matches wins. After \<open>data:\<close> the
  group takes the longest run of characters other than \<open>;\<close>, which must be non-empty
  and followed by \<open>;base64\<close>.
\<close>

definition matchAt :: "jsstring \<Rightarrow> jsstring option" where
  "matchAt s =
     (if startsWith s (js ''data:'') then
        (let r = drop 5 s; run = takeWhile (\<lambda>c. c \<noteq> 0x3B) r; rest = dropWhile (\<lambda>c. c \<noteq> 0x3B) r
         in if run \<noteq> [] \<and> startsWith rest (js '';base64'') then Some run else None)
      else None)"

fun mimetypeMatch :: "jsstring \<Rightarrow> jsstring option" where
  "mimetypeMatch [] = matchAt []"
| "mimetypeMatch (c # cs) =
     (case matchAt (c # cs) of Some m \<Rightarrow> Some m | None \<Rightarrow> mimetypeMatch cs)"

text \<open>The object \<open>{mimetype: detectedMimetype, data: cleanBase64, extension: extension}\<close>.\<close>

record parsedImage =
  detectedMimetype :: jsstring
  cleanBase64 :: jsstring
  extension :: propValue

text \<open>Lines 15 to 30 of \<open>parseBase64Image\<close>: the body and the detected MIME type.\<close>

definition splitDataUrl :: "jsstring \<Rightarrow> jsstring \<times> jsstring" where
  "splitDataUrl base64String =
     (if includesStr base64String (js '','') then
        (case split 0x2C base64String of
           [header, body] \<Rightarrow>
             (body, case mimetypeMatch header of Some m \<Rightarrow> m | None \<Rightarrow> js ''image/jpeg'')
         | _ \<Rightarrow> (base64String, js ''image/jpeg''))
      else (base64String, js ''image/jpeg''))"

text \<open>\<open>parseBase64Image\<close>: \<open>None\<close> is \<open>null\<close>. Nothing in its \<open>try\<close> block throws on a string.\<close>

definition parseBase64Image :: "jsstring \<Rightarrow> event list \<Rightarrow> parsedImage option \<times> event list" where
  "parseBase64Image base64String t =
     (case splitDataUrl base64String of
        (clean, detected) \<Rightarrow>
          (case isValidBase64 clean t of
             (False, t') \<Rightarrow> (None, t')
           | (True, t') \<Rightarrow>
               (Some \<lparr>detectedMimetype = detected, cleanBase64 = clean,
                      extension = getExtensionFromMimetype detected\<rparr>, t')))"

section \<open>Jobs and the outside world\<close>

text \<open>
  \<open>WhatsAppMessage\<close> after \<open>JSON.parse\<close>, which checks nothing: a property may be
  missing (\<open>None\<close>), and \<open>to\<close>, the one property read outside the per-recipient \<open>try\<close>,
  may hold a value that is neither a string nor an array (a number, a boolean, an
  object), here with its truthiness. A missing \<open>to\<close> stands for \<open>null\<close> as well.
  \<open>type\<close> is \<open>None\<close> when missing or none of the three tags.
\<close>

datatype toField = ToString jsstring | ToArray "jsstring list" | ToOther bool

datatype typeTag = TypeText | TypeMedia | TypeBase64

record whatsAppMessage =
  to :: "toField option"
  message :: "jsstring option"
  type :: "typeTag option"
  mediaUrl :: "jsstring option"
  base64Data :: "jsstring option"
  mimetype :: "jsstring option"
  filename :: "jsstring option"
  caption :: "jsstring option"
  options :: "deliveryOptions option"

text \<open>
  The \<open>Response\<close> of \<open>fetch\<close>: \<open>ok\<close>, \<open>status\<close>, \<open>statusText\<close>,
  \<open>headers.get("content-type")\<close> (\<open>None\<close> is \<open>null\<close>) and what \<open>arrayBuffer()\<close> gives.
\<close>

record response =
  ok :: bool
  status :: nat
  statusText :: jsstring
  contentType :: "jsstring option"
  arrayBuffer :: "thrown + byte list"

text \<open>
  The outside world. Each reply depends on the events so far: \<open>client.sendMessage\<close>
  returns the \<open>id._serialized\<close> of the sent message or throws, \<open>fetch\<close> returns a response
  or throws, \<open>Date.now()\<close> is a number, \<open>client.info\<close> is set or not, and the module
  variable \<open>rabbitChannel\<close>, which the close handler of the connection resets to \<open>null\<close>,
  is set or not.
\<close>

record env =
  sendMessageResult :: "event list \<Rightarrow> jsstring \<Rightarrow> content \<Rightarrow> sendOptions \<Rightarrow> thrown + jsstring"
  fetchResult :: "event list \<Rightarrow> jsstring \<Rightarrow> thrown + response"
  dateNow :: "event list \<Rightarrow> nat"
  clientInfo :: "event list \<Rightarrow> bool"
  rabbitChannel :: "event list \<Rightarrow> bool"

definition orDefault :: "jsstring option \<Rightarrow> jsstring \<Rightarrow> jsstring" where
  "orDefault a d = (case a of None \<Rightarrow> d | Some s \<Rightarrow> if s = [] then d else s)"

text \<open>\<open>Array.prototype.pop\<close>: the last element, \<open>undefined\<close> on an empty array.\<close>

definition pop :: "jsstring list \<Rightarrow> jsstring option" where
  "pop xs = (case rev xs of [] \<Rightarrow> None | x # _ \<Rightarrow> Some x)"

section \<open>Delivery dispatcher (bas64.handler.ts)\<close>

datatype deliveryResult =
  Success jsstring jsstring
| Failure jsstring jsstring

definition phoneNumberOf :: "jsstring \<Rightarrow> jsstring" where
  "phoneNumberOf recipient =
     (if includesStr recipient (js ''@c.us'') then recipient else recipient @ js ''@c.us'')"

definition clientSendMessage ::
  "env \<Rightarrow> jsstring \<Rightarrow> content \<Rightarrow> sendOptions \<Rightarrow> event list \<Rightarrow> (thrown + jsstring) \<times> event list" where
  "clientSendMessage w chatId c opts t =
     (sendMessageResult w t chatId c opts, t @ [SendMessage chatId c opts])"

text \<open>
  \<open>client.sendMessage(phoneNumber, media, {caption, ...options})\<close> when the caption is
  non-empty, \<open>client.sendMessage(phoneNumber, media, options)\<close> otherwise.
\<close>

definition sendMedia ::
  "env \<Rightarrow> jsstring \<Rightarrow> messageMedia \<Rightarrow> jsstring \<Rightarrow> deliveryOptions option \<Rightarrow> event list
   \<Rightarrow> (thrown + jsstring) \<times> event list" where
  "sendMedia w phoneNumber media cap opts t =
     (if cap \<noteq> [] then clientSendMessage w phoneNumber (MediaContent media) (WithCaption cap opts) t
      else clientSendMessage w phoneNumber (MediaContent media) (Plain opts) t)"

text \<open>
  The body of the inner \<open>try\<close> for one recipient, up to \<open>result.id._serialized\<close>: the
  message id, or the value thrown.
\<close>

definition base64Branch ::
  "env \<Rightarrow> whatsAppMessage \<Rightarrow> jsstring \<Rightarrow> event list \<Rightarrow> (thrown + jsstring) \<times> event list" where
  "base64Branch w m phoneNumber t =
     (case parseBase64Image (orDefault (base64Data m) []) t of
        (None, t1) \<Rightarrow> (Inl (newError (js ''Failed to parse base64 image data'')), t1)
      | (Some parsed, t1) \<Rightarrow>
          (let t2 = t1 @ [BufferFrom (cleanBase64 parsed)]
           in if bufferFromBase64 (cleanBase64 parsed) = [] then
                (Inl (newError (js ''Failed to decode base64 data: ''
                        @ showThrown (newError (js ''Decoded image buffer is empty'')))), t2)
              else
                (let media = MessageMedia
                       (orDefault (mimetype m) (detectedMimetype parsed))
                       (cleanBase64 parsed)
                       (orDefault (filename m)
                          (js ''image_'' @ showNat (dateNow w t2) @ js ''.''
                           @ showProp (extension parsed)));
                     cap = sanitizeMessage (orElse (orElse (caption m) (message m)) (Some []))
                 in sendMedia w phoneNumber media cap (options m) t2)))"

definition mediaBranch ::
  "env \<Rightarrow> whatsAppMessage \<Rightarrow> jsstring \<Rightarrow> event list \<Rightarrow> (thrown + jsstring) \<times> event list" where
  "mediaBranch w m phoneNumber t =
     (let url = orDefault (mediaUrl m) []; t1 = t @ [Fetch url]
      in case fetchResult w t url of
           Inl e \<Rightarrow> (Inl e, t1)
         | Inr resp \<Rightarrow>
             if \<not> ok resp then
               (Inl (newError (js ''Failed to fetch media: '' @ showNat (status resp) @ js '' ''
                       @ statusText resp)), t1)
             else
               (case arrayBuffer resp of
                  Inl e \<Rightarrow> (Inl e, t1)
                | Inr buffer \<Rightarrow>
                    (let media = MessageMedia
                           (orDefault (contentType resp) (js ''application/octet-stream''))
                           (toStringBase64 buffer)
                           (orDefault (filename m)
                              (orDefault (pop (split 0x2F url)) (js ''media'')));
                         cap = sanitizeMessage (orElse (caption m) (Some []))
                     in sendMedia w phoneNumber media cap (options m) t1)))"

definition textBranch ::
  "env \<Rightarrow> whatsAppMessage \<Rightarrow> jsstring \<Rightarrow> event list \<Rightarrow> (thrown + jsstring) \<times> event list" where
  "textBranch w m phoneNumber t =
     (let sanitizedMessage = sanitizeMessage (message m)
      in if sanitizedMessage = [] then
           (Inl (newError (js ''Message is empty after sanitization'')), t)
         else clientSendMessage w phoneNumber (TextContent sanitizedMessage) (Plain (options m)) t)"

definition attempt ::
  "env \<Rightarrow> whatsAppMessage \<Rightarrow> jsstring \<Rightarrow> event list \<Rightarrow> (thrown + jsstring) \<times> event list" where
  "attempt w m recipient t =
     (let phoneNumber = phoneNumberOf recipient
      in if type m = Some TypeBase64 \<and> truthy (base64Data m) then base64Branch w m phoneNumber t
         else if type m = Some TypeMedia \<and> truthy (mediaUrl m) then mediaBranch w m phoneNumber t
         else textBranch w m phoneNumber t)"

text \<open>
  One turn of the \<open>for\<close> loop: the \<open>try\<close> body, then either the success record and the
  pause of one second, or the \<open>catch\<close> with the failure record.
\<close>

definition processRecipient ::
  "env \<Rightarrow> whatsAppMessage \<Rightarrow> jsstring \<Rightarrow> event list \<Rightarrow> deliveryResult \<times> event list" where
  "processRecipient w m recipient t =
     (case attempt w m recipient t of
        (Inr messageId, t') \<Rightarrow> (Success (phoneNumberOf recipient) messageId, t' @ [Delay 1000])
      | (Inl e, t') \<Rightarrow> (Failure recipient (errorMessage e), t'))"

fun forRecipients ::
  "env \<Rightarrow> whatsAppMessage \<Rightarrow> jsstring list \<Rightarrow> deliveryResult list \<Rightarrow> event list
   \<Rightarrow> deliveryResult list \<times> event list" where
  "forRecipients w m [] results t = (results, t)"
| "forRecipients w m (recipient # rest) results t =
     (case processRecipient w m recipient t of
        (r, t') \<Rightarrow> forRecipients w m rest (results @ [r]) t')"

text \<open>
  The first statement of \<open>sendWhatsAppMessage\<close>, the only one outside the loop that can
  throw: \<open>Array.isArray(messageData.to) ? messageData.to
  : messageData.to.split(",").map((r) => r.trim())\<close>. Reading \<open>split\<close> of a missing \<open>to\<close>
  and calling it on a value that has no such method are TypeErrors.
\<close>

definition recipientsOf :: "toField option \<Rightarrow> thrown + jsstring list" where
  "recipientsOf v =
     (case v of
        None \<Rightarrow>
          Inl (ErrorObject (js ''TypeError'')
                 (js ''Cannot read properties of undefined (reading 'split')''))
      | Some (ToOther b) \<Rightarrow>
          Inl (ErrorObject (js ''TypeError'') (js ''messageData.to.split is not a function''))
      | Some (ToArray recipients) \<Rightarrow> Inr recipients
      | Some (ToString s) \<Rightarrow> Inr (map trim (split 0x2C s)))"

text \<open>\<open>sendWhatsAppMessage\<close>: the results, or the exception that the outer \<open>catch\<close> rethrows.\<close>

definition sendWhatsAppMessage ::
  "env \<Rightarrow> whatsAppMessage \<Rightarrow> event list \<Rightarrow> (thrown + deliveryResult list) \<times> event list" where
  "sendWhatsAppMessage w m t =
     (case recipientsOf (to m) of
        Inl e \<Rightarrow> (Inl e, t)
      | Inr recipients \<Rightarrow>
          (case forRecipients w m recipients [] t of (results, t') \<Rightarrow> (Inr results, t')))"

text \<open>
  Reading a history: the addresses, the contents and the option arguments of the calls
  of \<open>client.sendMessage\<close>, in order.
\<close>

fun sentTo :: "event list \<Rightarrow> jsstring list" where
  "sentTo [] = []"
| "sentTo (SendMessage chatId c opts # es) = chatId # sentTo es"
| "sentTo (e # es) = sentTo es"

fun sentContent :: "event list \<Rightarrow> content list" where
  "sentContent [] = []"
| "sentContent (SendMessage chatId c opts # es) = c # sentContent es"
| "sentContent (e # es) = sentContent es"

fun sentOptions :: "event list \<Rightarrow> sendOptions list" where
  "sentOptions [] = []"
| "sentOptions (SendMessage chatId c opts # es) = opts # sentOptions es"
| "sentOptions (e # es) = sentOptions es"

section \<open>Queue consumer (server2.ts)\<close>

text \<open>\<open>validateMessageData\<close>: \<open>!messageData.to\<close> holds for a missing \<open>to\<close>, for \<open>""\<close> and for
  a falsy value of another type; an array, even an empty one, is truthy.\<close>

definition toMissing :: "toField option \<Rightarrow> bool" where
  "toMissing v =
     (case v of None \<Rightarrow> True | Some (ToString s) \<Rightarrow> s = [] | Some (ToArray rs) \<Rightarrow> False
      | Some (ToOther b) \<Rightarrow> \<not> b)"

definition validateMessageData :: "whatsAppMessage \<Rightarrow> bool" where
  "validateMessageData m =
     (if toMissing (to m) then False
      else if \<not> truthy (message m) \<and> \<not> truthy (base64Data m) \<and> \<not> truthy (mediaUrl m) then False
      else True)"

text \<open>
  What \<open>JSON.parse(msg.content.toString())\<close> gives: a \<open>SyntaxError\<close>, \<open>null\<close> (reading
  \<open>.to\<close> of it throws), or a value whose properties are read as above.
\<close>

datatype parsed = ParseError | ParsedNull | Parsed whatsAppMessage

text \<open>\<open>rabbitChannel?.ack(msg)\<close> and \<open>rabbitChannel?.nack(msg, false, requeue)\<close>.\<close>

definition ack :: "env \<Rightarrow> event list \<Rightarrow> event list" where
  "ack w t = (if rabbitChannel w t then t @ [Ack] else t)"

definition nack :: "env \<Rightarrow> bool \<Rightarrow> event list \<Rightarrow> event list" where
  "nack w requeue t = (if rabbitChannel w t then t @ [Nack requeue] else t)"

text \<open>
  The callback given to \<open>rabbitChannel.consume\<close>. \<open>msg\<close> is \<open>None\<close> for the \<open>null\<close> that the
  broker sends when the consumer is cancelled.
\<close>

definition consumeMessages :: "env \<Rightarrow> parsed option \<Rightarrow> event list \<Rightarrow> event list" where
  "consumeMessages w msg t =
     (case msg of
        None \<Rightarrow> t
      | Some ParseError \<Rightarrow> nack w False t
      | Some ParsedNull \<Rightarrow> nack w False t
      | Some (Parsed messageData) \<Rightarrow>
          if \<not> validateMessageData messageData then nack w False t
          else if \<not> clientInfo w t then nack w True t
          else (case sendWhatsAppMessage w messageData t of
                  (Inr results, t') \<Rightarrow> ack w t'
                | (Inl e, t') \<Rightarrow> nack w False t'))"

section \<open>An example world and example jobs\<close>

text \<open>
  A chat client that refuses every address containing \<open>bad\<close> and numbers the messages
  it accepts by the length of the history; no network; a ready session and an open
  channel.
\<close>

definition demoEnv :: env where
  "demoEnv =
     \<lparr>sendMessageResult =
        (\<lambda>t chatId c opts.
           if includesStr chatId (js ''bad'') then Inl (newError (js ''invalid wid''))
           else Inr (js ''msg'' @ showNat (length t))),
      fetchResult = (\<lambda>t url. Inl (newError (js ''fetch failed''))),
      dateNow = (\<lambda>t. 1700000000000),
      clientInfo = (\<lambda>t. True),
      rabbitChannel = (\<lambda>t. True)\<rparr>"

definition textJob :: whatsAppMessage where
  "textJob =
     \<lparr>to = Some (ToString (js ''1555, bad'')), message = Some (js '' hi ''), type = None,
      mediaUrl = None, base64Data = None, mimetype = None, filename = None, caption = None,
      options = None\<rparr>"

text \<open>The job \<open>{type: "base64", base64Data: "data:image/png;base64,aGVsbG8="}\<close> sent to \<open>v\<close>.\<close>

definition pngJob :: "toField option \<Rightarrow> deliveryOptions option \<Rightarrow> whatsAppMessage" where
  "pngJob v opts =
     \<lparr>to = v, message = None, type = Some TypeBase64, mediaUrl = None,
      base64Data = Some (js ''data:image/png;base64,aGVsbG8=''), mimetype = None,
      filename = None, caption = None, options = opts\<rparr>"


definition starJob :: whatsAppMessage where
  "starJob =
     \<lparr>to = Some (ToArray [js ''1555'']), message = Some (js ''hi''), type = Some TypeBase64,
      mediaUrl = None, base64Data = Some (js ''data:image/png;base64,aGVs*G8=''),
      mimetype = None, filename = None, caption = None, options = None\<rparr>"


text \<open>A session that is not ready; jobs whose only recipient is refused, whose \<open>to\<close> is a
  number, and which has no content.\<close>

definition notReadyEnv :: env where
  "notReadyEnv = demoEnv\<lparr>clientInfo := (\<lambda>t. False)\<rparr>"

definition allBadJob :: whatsAppMessage where
  "allBadJob = textJob\<lparr>to := Some (ToArray [js ''bad''])\<rparr>"

definition numberJob :: whatsAppMessage where
  "numberJob = textJob\<lparr>to := Some (ToOther True)\<rparr>"

definition noContentJob :: whatsAppMessage where
  "noContentJob = textJob\<lparr>message := None\<rparr>"

text \<open>The PNG job with one recipient, and the same job with a caption.\<close>

definition readyPngJob :: whatsAppMessage where
  "readyPngJob = pngJob (Some (ToArray [js ''1555''])) None"

definition captionJob :: whatsAppMessage where
  "captionJob = readyPngJob\<lparr>caption := Some (js '' look '')\<rparr>"

section \<open>Properties of the sanitizer\<close>

lemmas string_eval =
  js_def trim_def trimStart_def trimEnd_def isWhiteSpace_def isControlChar_def
  removeBOM_def removeControlChars_def sanitizeMessage_def truthy_def

lemma trimEnd_prefix: "s = trimEnd s @ rev (takeWhile isWhiteSpace (rev s))"
  unfolding trimEnd_def by (metis rev_append rev_rev_ident takeWhile_dropWhile_id)

lemma trimStart_trimEnd:
  assumes "s = [] \<or> \<not> isWhiteSpace (hd s)"
  shows "trimStart (trimEnd s) = trimEnd s"
proof (cases "trimEnd s")
  case Nil
  then show ?thesis by (simp add: trimStart_def)
next
  case (Cons c cs)
  with trimEnd_prefix [of s] have "hd s = c" and "s \<noteq> []"
    by (metis append_Cons list.sel(1), metis append_is_Nil_conv list.distinct(1))
  with assms have "\<not> isWhiteSpace c" by simp
  with Cons show ?thesis by (simp add: trimStart_def)
qed

lemma trimStart_head: "trimStart s = [] \<or> \<not> isWhiteSpace (hd (trimStart s))"
  by (cases "dropWhile isWhiteSpace s = []") (simp_all add: trimStart_def hd_dropWhile)

lemma trim_idem: "trim (trim s) = trim s"
proof -
  have "trimStart (trimEnd (trimStart s)) = trimEnd (trimStart s)"
    by (rule trimStart_trimEnd [OF trimStart_head])
  moreover have "trimEnd (trimEnd (trimStart s)) = trimEnd (trimStart s)"
    by (simp add: trimEnd_def)
  ultimately show ?thesis by (simp add: trim_def)
qed

lemma set_trim: "set (trim s) \<subseteq> set s"
proof -
  have "set (trimEnd (trimStart s)) \<subseteq> set (trimStart s)"
    using trimEnd_prefix [of "trimStart s"] by (metis set_append Un_upper1)
  also have "\<dots> \<subseteq> set s" by (simp add: trimStart_def set_dropWhileD subsetI)
  finally show ?thesis by (simp add: trim_def)
qed

lemma trim_Nil: "trim [] = []"
  by (simp add: trim_def trimStart_def trimEnd_def)

lemma sanitizeMessage_Some: "sanitizeMessage (Some s) = trim (removeBOM (removeControlChars s))"
  by (simp add: sanitizeMessage_def trim_Nil removeBOM_def removeControlChars_def)

lemma set_strip:
  "c \<in> set (removeBOM (removeControlChars s)) \<Longrightarrow> \<not> isControlChar c \<and> c \<noteq> 0xFEFF"
  unfolding removeBOM_def removeControlChars_def by simp

lemma strip_id:
  assumes "\<And>c. c \<in> set s \<Longrightarrow> \<not> isControlChar c \<and> c \<noteq> 0xFEFF"
  shows "removeBOM (removeControlChars s) = s"
proof -
  have "removeControlChars s = s"
    unfolding removeControlChars_def using assms by (intro filter_True) blast
  moreover have "removeBOM s = s"
    unfolding removeBOM_def using assms by (intro filter_True) blast
  ultimately show ?thesis by (simp only:)
qed

lemma sanitizeMessage_clean:
  assumes "c \<in> set (sanitizeMessage (Some s))"
  shows "\<not> isControlChar c \<and> c \<noteq> 0xFEFF"
proof -
  from assms have "c \<in> set (trim (removeBOM (removeControlChars s)))"
    by (simp only: sanitizeMessage_Some)
  with set_trim have "c \<in> set (removeBOM (removeControlChars s))" by blast
  then show ?thesis by (rule set_strip)
qed

text \<open>
  C4, as amended. \<open>sanitizeMessage\<close> deletes the code units of the class
  U+0000 to U+0008, U+000B, U+000C, U+000E to U+001F and U+007F to U+009F, deletes every
  U+FEFF, and trims white space from both ends; none of the deleted code units is left
  in the result. U+0009, U+000A and U+000D are not in the class: inside the text they
  stay.
\<close>

theorem sanitizeMessage_removes_listed_controls:
  "sanitizeMessage (Some s) = trim (removeBOM (removeControlChars s)) \<and>
   (\<forall>c \<in> set (sanitizeMessage (Some s)). \<not> isControlChar c \<and> c \<noteq> 0xFEFF) \<and>
   trim (sanitizeMessage (Some s)) = sanitizeMessage (Some s)"
proof (intro conjI ballI)
  show "sanitizeMessage (Some s) = trim (removeBOM (removeControlChars s))"
    by (rule sanitizeMessage_Some)
  show "trim (sanitizeMessage (Some s)) = sanitizeMessage (Some s)"
    by (simp only: sanitizeMessage_Some trim_idem)
  show "\<not> isControlChar c" if "c \<in> set (sanitizeMessage (Some s))" for c
    using sanitizeMessage_clean [OF that] by (rule conjunct1)
  show "c \<noteq> 0xFEFF" if "c \<in> set (sanitizeMessage (Some s))" for c
    using sanitizeMessage_clean [OF that] by (rule conjunct2)
qed

lemma sanitizeMessage_example:
  "sanitizeMessage (Some [0x20, 0x00, 0x68, 0xFEFF, 0x09, 0x85, 0x69, 0x1B, 0x0A]) =
     [0x68, 0x09, 0x69]"
  by (simp add: sanitizeMessage_def removeBOM_def removeControlChars_def trim_def
      trimStart_def trimEnd_def isWhiteSpace_def isControlChar_def)

theorem sanitizeMessage_removes_listed_controls_witness:
  "sanitizeMessage (Some [0x20, 0x00, 0x68, 0xFEFF, 0x09, 0x85, 0x69, 0x1B, 0x0A]) =
     [0x68, 0x09, 0x69] \<and>
   \<not> isControlChar 0x09 \<and> (0x09 :: codeunit) \<noteq> 0xFEFF"
proof -
  let ?s = "[0x20, 0x00, 0x68, 0xFEFF, 0x09, 0x85, 0x69, 0x1B, 0x0A] :: jsstring"
  have "(0x09 :: codeunit) \<in> set (sanitizeMessage (Some ?s))"
    by (simp add: sanitizeMessage_example)
  with sanitizeMessage_removes_listed_controls [of ?s] sanitizeMessage_example
  show ?thesis by blast
qed

text \<open>
  C4 as stated fails: U+0009 is a C0 control character, and \<open>sanitizeMessage("a\tb")\<close>
  still holds it.
\<close>

theorem sanitizeMessage_keeps_tab:
  "(0x09 :: codeunit) \<le> 0x1F \<and> 0x09 \<in> set (sanitizeMessage (Some [0x61, 0x09, 0x62]))"
  by (simp add: sanitizeMessage_def removeBOM_def removeControlChars_def trim_def
      trimStart_def trimEnd_def isWhiteSpace_def isControlChar_def)

text \<open>
  C7. \<open>sanitizeMessage\<close> is idempotent: sanitizing its own result changes nothing. The
  argument may be any string, or the \<open>undefined\<close> of a missing property.
\<close>

theorem sanitizeMessage_idempotent:
  "sanitizeMessage (Some (sanitizeMessage v)) = sanitizeMessage v"
proof (cases v)
  case None
  then show ?thesis by (simp add: sanitizeMessage_def)
next
  case (Some x)
  have "removeBOM (removeControlChars (sanitizeMessage (Some x))) = sanitizeMessage (Some x)"
    by (rule strip_id) (rule sanitizeMessage_clean)
  then have "sanitizeMessage (Some (sanitizeMessage (Some x))) = trim (sanitizeMessage (Some x))"
    by (simp only: sanitizeMessage_Some [of "sanitizeMessage (Some x)"])
  also have "\<dots> = sanitizeMessage (Some x)"
    by (simp only: sanitizeMessage_Some trim_idem)
  finally show ?thesis by (simp only: Some)
qed

theorem sanitizeMessage_idempotent_witness:
  "sanitizeMessage (Some (sanitizeMessage
     (Some [0x20, 0x00, 0x68, 0xFEFF, 0x09, 0x85, 0x69, 0x1B, 0x0A]))) = [0x68, 0x09, 0x69]"
  using sanitizeMessage_idempotent [of "Some [0x20, 0x00, 0x68, 0xFEFF, 0x09, 0x85, 0x69, 0x1B, 0x0A]"]
  by (simp only: sanitizeMessage_example)

section \<open>Properties of the dispatcher\<close>

lemma forRecipients_acc:
  "forRecipients w m rs acc t =
     (acc @ fst (forRecipients w m rs [] t), snd (forRecipients w m rs [] t))"
proof (induction rs arbitrary: acc t)
  case Nil
  then show ?case by simp
next
  case (Cons r rs)
  obtain x t1 where p: "processRecipient w m r t = (x, t1)"
    by (cases "processRecipient w m r t")
  show ?case
    using Cons.IH [of "acc @ [x]" t1] Cons.IH [of "[x]" t1] by (simp add: p)
qed

lemma forRecipients_append:
  "forRecipients w m (xs @ ys) acc t =
     (case forRecipients w m xs acc t of (a, t1) \<Rightarrow> forRecipients w m ys a t1)"
  by (induction xs arbitrary: acc t) (auto split: prod.splits)

lemma length_forRecipients:
  "length (fst (forRecipients w m rs acc t)) = length acc + length rs"
  by (induction rs arbitrary: acc t) (auto split: prod.splits)

lemma forRecipients_nth:
  assumes "i < length rs"
  shows "fst (forRecipients w m rs [] t) ! i =
           fst (processRecipient w m (rs ! i) (snd (forRecipients w m (take i rs) [] t)))"
proof -
  let ?pre = "forRecipients w m (take i rs) [] t"
  obtain x t1 where p: "processRecipient w m (rs ! i) (snd ?pre) = (x, t1)"
    by (cases "processRecipient w m (rs ! i) (snd ?pre)")
  have rs: "rs = take i rs @ (rs ! i # drop (Suc i) rs)"
    using assms by (simp add: Cons_nth_drop_Suc)
  have "forRecipients w m rs [] t =
          forRecipients w m (rs ! i # drop (Suc i) rs) (fst ?pre) (snd ?pre)"
    by (subst rs, simp only: forRecipients_append) (simp add: case_prod_beta)
  also have "\<dots> = forRecipients w m (drop (Suc i) rs) (fst ?pre @ [x]) t1"
    by (simp add: p)
  also have "\<dots> = ((fst ?pre @ [x]) @ fst (forRecipients w m (drop (Suc i) rs) [] t1),
                     snd (forRecipients w m (drop (Suc i) rs) [] t1))"
    by (rule forRecipients_acc)
  finally have "fst (forRecipients w m rs [] t) =
                  fst ?pre @ x # fst (forRecipients w m (drop (Suc i) rs) [] t1)"
    by simp
  moreover have "length (fst ?pre) = i"
    using assms by (simp add: length_forRecipients)
  ultimately show ?thesis by (simp add: p nth_append)
qed

lemma length_split: "length (split sep s) = Suc (count_list s sep)"
  by (induction s) (auto split: list.splits)

lemma sendWhatsAppMessage_results:
  assumes "recipientsOf (to m) = Inr rs"
  shows "sendWhatsAppMessage w m t =
           (Inr (fst (forRecipients w m rs [] t)), snd (forRecipients w m rs [] t))"
  by (simp add: sendWhatsAppMessage_def assms case_prod_beta)

lemma sentTo_append: "sentTo (xs @ ys) = sentTo xs @ sentTo ys"
  by (induction xs rule: sentTo.induct) simp_all

lemma sentContent_append: "sentContent (xs @ ys) = sentContent xs @ sentContent ys"
  by (induction xs rule: sentContent.induct) simp_all

lemma sentOptions_append: "sentOptions (xs @ ys) = sentOptions xs @ sentOptions ys"
  by (induction xs rule: sentOptions.induct) simp_all

lemma forRecipients_snoc:
  "forRecipients w m (rs @ [r]) acc t =
     (case forRecipients w m rs acc t of
        (a, t1) \<Rightarrow> (a @ [fst (processRecipient w m r t1)], snd (processRecipient w m r t1)))"
  by (simp add: forRecipients_append case_prod_beta)

lemma forRecipients_take_Suc:
  assumes "i < length rs"
  shows "snd (forRecipients w m (take (Suc i) rs) [] t) =
           snd (processRecipient w m (rs ! i) (snd (forRecipients w m (take i rs) [] t)))"
  using assms by (simp add: take_Suc_conv_app_nth forRecipients_snoc case_prod_beta)

lemma text_turn:
  assumes "\<not> (type m = Some TypeBase64 \<and> truthy (base64Data m))"
    and "\<not> (type m = Some TypeMedia \<and> truthy (mediaUrl m))"
    and "sanitizeMessage (message m) \<noteq> []"
  shows "processRecipient w m r t =
     (let call = SendMessage (phoneNumberOf r) (TextContent (sanitizeMessage (message m)))
                   (Plain (options m))
      in case sendMessageResult w t (phoneNumberOf r) (TextContent (sanitizeMessage (message m)))
                (Plain (options m)) of
           Inr messageId \<Rightarrow> (Success (phoneNumberOf r) messageId, t @ [call, Delay 1000])
         | Inl e \<Rightarrow> (Failure r (errorMessage e), t @ [call]))"
proof -
  from assms(1,2) have "attempt w m r t = textBranch w m (phoneNumberOf r) t"
    by (auto simp add: attempt_def)
  with assms(3) show ?thesis
    by (simp add: processRecipient_def textBranch_def clientSendMessage_def Let_def
        split: sum.splits)
qed

lemma text_job_calls:
  assumes "\<not> (type m = Some TypeBase64 \<and> truthy (base64Data m))"
    and "\<not> (type m = Some TypeMedia \<and> truthy (mediaUrl m))"
    and "sanitizeMessage (message m) \<noteq> []"
  shows "sentTo (snd (forRecipients w m rs acc t)) = sentTo t @ map phoneNumberOf rs \<and>
         sentContent (snd (forRecipients w m rs acc t)) =
           sentContent t @ replicate (length rs) (TextContent (sanitizeMessage (message m)))"
proof (induction rs arbitrary: acc t)
  case Nil
  then show ?case by simp
next
  case (Cons r rs)
  obtain x t1 where p: "processRecipient w m r t = (x, t1)"
    by (cases "processRecipient w m r t")
  then have "sentTo t1 = sentTo t @ [phoneNumberOf r] \<and>
             sentContent t1 = sentContent t @ [TextContent (sanitizeMessage (message m))]"
    by (auto simp add: text_turn [OF assms] Let_def sentTo_append sentContent_append
        split: sum.splits)
  with Cons.IH [of "acc @ [x]" t1] show ?case
    by (simp add: p replicate_app_Cons_same)
qed

text \<open>
  C1. When the recipients of a job can be read (\<open>to\<close> is an array or a string),
  \<open>sendWhatsAppMessage\<close> returns one result per recipient, in the order of the
  recipients. Slot \<open>i\<close> is decided by the attempt for recipient \<open>i\<close> alone, made after
  the first \<open>i\<close> recipients have been processed: the message id gives a success
  record, a thrown value gives \<open>{recipient, success: false, error}\<close>, and in both cases
  the loop goes on to the next recipient.
\<close>

theorem dispatch_one_result_per_recipient:
  assumes "recipientsOf (to m) = Inr rs"
  shows "\<exists>results t'. sendWhatsAppMessage w m t = (Inr results, t') \<and>
           length results = length rs \<and>
           (\<forall>i<length rs.
              case attempt w m (rs ! i) (snd (forRecipients w m (take i rs) [] t)) of
                (Inr messageId, t1) \<Rightarrow> results ! i = Success (phoneNumberOf (rs ! i)) messageId
              | (Inl e, t1) \<Rightarrow> results ! i = Failure (rs ! i) (errorMessage e))"
proof -
  obtain results t' where f: "forRecipients w m rs [] t = (results, t')"
    by (cases "forRecipients w m rs [] t")
  have "sendWhatsAppMessage w m t = (Inr results, t')"
    by (simp add: sendWhatsAppMessage_results [OF assms] f)
  moreover have "length results = length rs"
    using length_forRecipients [of w m rs "[]" t] by (simp add: f)
  moreover have "case attempt w m (rs ! i) (snd (forRecipients w m (take i rs) [] t)) of
                (Inr messageId, t1) \<Rightarrow> results ! i = Success (phoneNumberOf (rs ! i)) messageId
              | (Inl e, t1) \<Rightarrow> results ! i = Failure (rs ! i) (errorMessage e)"
    if "i < length rs" for i
    using forRecipients_nth [OF that, of w m t]
    by (simp add: f processRecipient_def split: prod.splits sum.splits)
  ultimately show ?thesis by blast
qed

lemma textJob_recipients: "recipientsOf (to textJob) = Inr [js ''1555'', js ''bad'']"
  by (simp add: recipientsOf_def textJob_def js_def trim_def trimStart_def trimEnd_def
      isWhiteSpace_def)

lemma processRecipient_1555:
  "processRecipient demoEnv textJob (js ''1555'') [] =
     (Success (js ''1555@c.us'') (js ''msg0''),
      [SendMessage (js ''1555@c.us'') (TextContent (js ''hi'')) (Plain None), Delay 1000])"
  by (simp add: processRecipient_def attempt_def textBranch_def clientSendMessage_def
      phoneNumberOf_def textJob_def demoEnv_def showNat.simps string_eval)

lemma attempt_bad:
  "attempt demoEnv textJob (js ''bad'') t =
     (Inl (newError (js ''invalid wid'')),
      t @ [SendMessage (js ''bad@c.us'') (TextContent (js ''hi'')) (Plain None)])"
  by (simp add: attempt_def textBranch_def clientSendMessage_def phoneNumberOf_def textJob_def
      demoEnv_def string_eval)

theorem dispatch_one_result_per_recipient_witness:
  "recipientsOf (to textJob) = Inr [js ''1555'', js ''bad''] \<and>
   (1 :: nat) < length [js ''1555'', js ''bad''] \<and>
   (\<exists>results t'. sendWhatsAppMessage demoEnv textJob [] = (Inr results, t') \<and>
      length results = 2 \<and> results ! 1 = Failure (js ''bad'') (js ''invalid wid''))"
proof -
  from dispatch_one_result_per_recipient [OF textJob_recipients, of demoEnv "[]"]
  obtain results t' where s: "sendWhatsAppMessage demoEnv textJob [] = (Inr results, t')"
    and l: "length results = length [js ''1555'', js ''bad'']"
    and a: "\<forall>i<length [js ''1555'', js ''bad''].
              case attempt demoEnv textJob ([js ''1555'', js ''bad''] ! i)
                     (snd (forRecipients demoEnv textJob (take i [js ''1555'', js ''bad'']) [] [])) of
                (Inr messageId, t1) \<Rightarrow>
                  results ! i = Success (phoneNumberOf ([js ''1555'', js ''bad''] ! i)) messageId
              | (Inl e, t1) \<Rightarrow> results ! i = Failure ([js ''1555'', js ''bad''] ! i) (errorMessage e)"
    by blast
  have one: "(1 :: nat) < length [js ''1555'', js ''bad'']" by simp
  from a [rule_format, OF one] have "results ! 1 = Failure (js ''bad'') (js ''invalid wid'')"
    by (simp add: processRecipient_1555 attempt_bad newError_def errorMessage_def)
  with s l one textJob_recipients show ?thesis by auto
qed

text \<open>
  C9. A \<open>to\<close> that is a single string is split at its commas and each part is trimmed:
  a string with \<open>k\<close> commas has \<open>k + 1\<close> parts and gives \<open>k + 1\<close> results. Result \<open>i\<close>
  is that of the attempt for the trimmed part \<open>i\<close>, made after the first \<open>i\<close> parts have
  been processed. For a plain-text job with a non-empty sanitized message the chat
  client is called once per part, in order, each time with the address of that part
  and the sanitized message.
\<close>

theorem string_recipients_split_on_commas:
  assumes "to m = Some (ToString s)"
  shows "recipientsOf (to m) = Inr (map trim (split 0x2C s)) \<and>
     length (split 0x2C s) = Suc (count_list s 0x2C) \<and>
     (\<exists>results t'. sendWhatsAppMessage w m t = (Inr results, t') \<and>
        length results = Suc (count_list s 0x2C) \<and>
        (\<forall>i<Suc (count_list s 0x2C).
           let token = trim (split 0x2C s ! i);
               ti = snd (forRecipients w m (map trim (take i (split 0x2C s))) [] t)
           in case attempt w m token ti of
                (Inr messageId, t1) \<Rightarrow> results ! i = Success (phoneNumberOf token) messageId
              | (Inl e, t1) \<Rightarrow> results ! i = Failure token (errorMessage e)) \<and>
        (\<not> (type m = Some TypeBase64 \<and> truthy (base64Data m)) \<and>
         \<not> (type m = Some TypeMedia \<and> truthy (mediaUrl m)) \<and>
         sanitizeMessage (message m) \<noteq> [] \<longrightarrow>
           sentTo t' = sentTo t @ map (\<lambda>part. phoneNumberOf (trim part)) (split 0x2C s) \<and>
           sentContent t' =
             sentContent t
             @ replicate (Suc (count_list s 0x2C)) (TextContent (sanitizeMessage (message m)))))"
proof -
  let ?rs = "map trim (split 0x2C s)"
  have r: "recipientsOf (to m) = Inr ?rs"
    by (simp add: recipientsOf_def assms)
  have n: "length ?rs = Suc (count_list s 0x2C)"
    by (simp add: length_split)
  note d = sendWhatsAppMessage_results [OF r, of w t]
  have l: "length (fst (forRecipients w m ?rs [] t)) = Suc (count_list s 0x2C)"
    by (simp add: length_forRecipients length_split)
  have slot: "let token = trim (split 0x2C s ! i);
               ti = snd (forRecipients w m (map trim (take i (split 0x2C s))) [] t)
           in case attempt w m token ti of
                (Inr messageId, t1) \<Rightarrow>
                  fst (forRecipients w m ?rs [] t) ! i = Success (phoneNumberOf token) messageId
              | (Inl e, t1) \<Rightarrow> fst (forRecipients w m ?rs [] t) ! i = Failure token (errorMessage e)"
    if "i < Suc (count_list s 0x2C)" for i
  proof -
    from that n have i: "i < length ?rs" by simp
    then have "?rs ! i = trim (split 0x2C s ! i)" by simp
    with forRecipients_nth [OF i, of w m t] show ?thesis
      by (simp add: processRecipient_def take_map Let_def split: prod.splits sum.splits)
  qed
  have calls: "sentTo (snd (forRecipients w m ?rs [] t)) =
                 sentTo t @ map (\<lambda>part. phoneNumberOf (trim part)) (split 0x2C s) \<and>
               sentContent (snd (forRecipients w m ?rs [] t)) =
                 sentContent t
                 @ replicate (Suc (count_list s 0x2C)) (TextContent (sanitizeMessage (message m)))"
    if "\<not> (type m = Some TypeBase64 \<and> truthy (base64Data m)) \<and>
        \<not> (type m = Some TypeMedia \<and> truthy (mediaUrl m)) \<and>
        sanitizeMessage (message m) \<noteq> []"
    using text_job_calls [of m w ?rs "[]" t] that n by (simp add: comp_def)
  from r n d l slot calls show ?thesis
    by (simp only: length_map) blast
qed

lemma split_textJob: "split 0x2C (js ''1555, bad'') = [js ''1555'', js '' bad'']"
  by (simp add: js_def)

lemma trim_bad: "trim (js '' bad'') = js ''bad''" "trim (js ''1555'') = js ''1555''"
  by (simp_all add: string_eval)

lemma textJob_is_text:
  "\<not> (type textJob = Some TypeBase64 \<and> truthy (base64Data textJob)) \<and>
   \<not> (type textJob = Some TypeMedia \<and> truthy (mediaUrl textJob)) \<and>
   sanitizeMessage (message textJob) \<noteq> []"
  by (simp add: textJob_def string_eval)

theorem string_recipients_split_on_commas_witness:
  "to textJob = Some (ToString (js ''1555, bad'')) \<and>
   Suc (count_list (js ''1555, bad'') 0x2C) = 2 \<and>
   (\<exists>results t'. sendWhatsAppMessage demoEnv textJob [] = (Inr results, t') \<and>
      length results = 2 \<and>
      results ! 1 = Failure (js ''bad'') (js ''invalid wid'') \<and>
      sentTo t' = [js ''1555@c.us'', js ''bad@c.us''])"
proof -
  have h: "to textJob = Some (ToString (js ''1555, bad''))" by (simp add: textJob_def)
  have c: "Suc (count_list (js ''1555, bad'') 0x2C) = 2" by (simp add: js_def)
  have p: "phoneNumberOf (js ''1555'') = js ''1555@c.us''"
    "phoneNumberOf (js ''bad'') = js ''bad@c.us''"
    by (simp_all add: phoneNumberOf_def js_def)
  from string_recipients_split_on_commas [OF h, of demoEnv "[]"]
  obtain results t' where s: "sendWhatsAppMessage demoEnv textJob [] = (Inr results, t')"
    and l: "length results = Suc (count_list (js ''1555, bad'') 0x2C)"
    and a: "\<forall>i<Suc (count_list (js ''1555, bad'') 0x2C).
           let token = trim (split 0x2C (js ''1555, bad'') ! i);
               ti = snd (forRecipients demoEnv textJob
                           (map trim (take i (split 0x2C (js ''1555, bad'')))) [] [])
           in case attempt demoEnv textJob token ti of
                (Inr messageId, t1) \<Rightarrow> results ! i = Success (phoneNumberOf token) messageId
              | (Inl e, t1) \<Rightarrow> results ! i = Failure token (errorMessage e)"
    and k: "\<not> (type textJob = Some TypeBase64 \<and> truthy (base64Data textJob)) \<and>
         \<not> (type textJob = Some TypeMedia \<and> truthy (mediaUrl textJob)) \<and>
         sanitizeMessage (message textJob) \<noteq> [] \<longrightarrow>
           sentTo t' = sentTo [] @ map (\<lambda>part. phoneNumberOf (trim part))
                                     (split 0x2C (js ''1555, bad''))"
    by blast
  have one: "1 < Suc (count_list (js ''1555, bad'') 0x2C)" by (simp add: c)
  from a [rule_format, OF one] have "results ! 1 = Failure (js ''bad'') (js ''invalid wid'')"
    by (simp add: split_textJob trim_bad processRecipient_1555 attempt_bad newError_def
        errorMessage_def Let_def)
  moreover from k textJob_is_text have "sentTo t' = [js ''1555@c.us'', js ''bad@c.us'']"
    by (simp add: split_textJob trim_bad p)
  ultimately show ?thesis using h c s l by auto
qed




section \<open>Properties of the base64 normalizer\<close>

lemma isValidBase64_reject: "\<not> base64Regex_test str \<Longrightarrow> isValidBase64 str t = (False, t)"
  by (simp add: isValidBase64_def)

lemma isValidBase64_accept:
  "base64Regex_test str \<Longrightarrow> isValidBase64 str t = (True, t @ [BufferFrom str])"
  by (simp add: isValidBase64_def)

lemma parseBase64Image_accept:
  assumes "base64Regex_test (fst (splitDataUrl s))"
  shows "parseBase64Image s t =
     (Some \<lparr>detectedMimetype = snd (splitDataUrl s), cleanBase64 = fst (splitDataUrl s),
            extension = getExtensionFromMimetype (snd (splitDataUrl s))\<rparr>,
      t @ [BufferFrom (fst (splitDataUrl s))])"
  by (simp add: parseBase64Image_def case_prod_beta isValidBase64_accept [OF assms])

text \<open>
  C5. A body that fails the test of \<open>base64Regex\<close> is rejected before any decoding:
  \<open>isValidBase64\<close> answers \<open>false\<close> and \<open>parseBase64Image\<close> returns \<open>null\<close>, and neither
  has called \<open>Buffer.from\<close> (the history of events is unchanged). The body is the part
  after the comma of a string with exactly one comma, the whole string otherwise. In
  the dispatcher such a payload fails the recipient with
  \<open>Failed to parse base64 image data\<close>, again with no decoder call.
\<close>

theorem invalid_base64_rejected_before_decode:
  assumes "\<not> base64Regex_test (fst (splitDataUrl s))"
  shows "isValidBase64 (fst (splitDataUrl s)) t = (False, t) \<and>
         parseBase64Image s t = (None, t) \<and>
         (type m = Some TypeBase64 \<and> base64Data m = Some s \<and> s \<noteq> [] \<longrightarrow>
            processRecipient w m r t = (Failure r (js ''Failed to parse base64 image data''), t))"
proof -
  have p: "parseBase64Image s t = (None, t)"
    by (simp add: parseBase64Image_def case_prod_beta isValidBase64_reject [OF assms])
  have "processRecipient w m r t = (Failure r (js ''Failed to parse base64 image data''), t)"
    if "type m = Some TypeBase64 \<and> base64Data m = Some s \<and> s \<noteq> []"
  proof -
    from that have "attempt w m r t = base64Branch w m (phoneNumberOf r) t"
      by (simp add: attempt_def truthy_def)
    with that show ?thesis
      by (simp add: processRecipient_def base64Branch_def orDefault_def p newError_def
          errorMessage_def)
  qed
  with p show ?thesis
    by (simp add: isValidBase64_reject [OF assms])
qed

lemma splitDataUrl_star:
  "splitDataUrl (js ''data:image/png;base64,aGVs*G8='') = (js ''aGVs*G8='', js ''image/png'')"
  by (simp add: splitDataUrl_def js_def matchAt_def)

theorem invalid_base64_rejected_before_decode_witness:
  "\<not> base64Regex_test (js ''aGVs*G8='') \<and>
   parseBase64Image (js ''data:image/png;base64,aGVs*G8='') [] = (None, []) \<and>
   processRecipient demoEnv starJob (js ''1555'') [] =
     (Failure (js ''1555'') (js ''Failed to parse base64 image data''), [])"
proof -
  have h: "\<not> base64Regex_test (fst (splitDataUrl (js ''data:image/png;base64,aGVs*G8='')))"
    by (simp add: splitDataUrl_star) (simp add: base64Regex_test_def isBase64Char_def js_def)
  have j: "type starJob = Some TypeBase64 \<and>
           base64Data starJob = Some (js ''data:image/png;base64,aGVs*G8='') \<and>
           js ''data:image/png;base64,aGVs*G8='' \<noteq> []"
    by (simp add: starJob_def js_def)
  from invalid_base64_rejected_before_decode [OF h, of "[]" starJob demoEnv "js ''1555''"] h j
  show ?thesis by (simp add: splitDataUrl_star)
qed






section \<open>The PNG job, end to end\<close>

lemma splitDataUrl_png:
  "splitDataUrl (js ''data:image/png;base64,aGVsbG8='') = (js ''aGVsbG8='', js ''image/png'')"
  by (simp add: splitDataUrl_def js_def matchAt_def)

lemma base64Regex_png: "base64Regex_test (js ''aGVsbG8='')"
  by (simp add: base64Regex_test_def isBase64Char_def js_def)

lemma bufferFromBase64_png: "bufferFromBase64 (js ''aGVsbG8='') = [0x68, 0x65, 0x6C, 0x6C, 0x6F]"
  by (simp add: bufferFromBase64_def isBase64Char_def unbase64_def js_def)

lemma extension_png: "getExtensionFromMimetype (js ''image/png'') = StringValue (js ''png'')"
  by (simp add: getExtensionFromMimetype_def getProperty_def mimetypeMap_def toLowerCase_def
      lowerUnit_def js_def)

lemma parseBase64Image_png:
  "parseBase64Image (js ''data:image/png;base64,aGVsbG8='') t =
     (Some \<lparr>detectedMimetype = js ''image/png'', cleanBase64 = js ''aGVsbG8='',
            extension = StringValue (js ''png'')\<rparr>,
      t @ [BufferFrom (js ''aGVsbG8='')])"
proof -
  have "base64Regex_test (fst (splitDataUrl (js ''data:image/png;base64,aGVsbG8='')))"
    by (simp only: splitDataUrl_png fst_conv base64Regex_png)
  from parseBase64Image_accept [OF this, of t] show ?thesis
    by (simp only: splitDataUrl_png fst_conv snd_conv extension_png)
qed

lemma png_payload_turn:
  assumes "type m = Some TypeBase64"
    and "base64Data m = Some (js ''data:image/png;base64,aGVsbG8='')"
  shows "processRecipient w m r t =
     (let t2 = t @ [BufferFrom (js ''aGVsbG8=''), BufferFrom (js ''aGVsbG8='')];
          media = MessageMedia (orDefault (mimetype m) (js ''image/png'')) (js ''aGVsbG8='')
                    (orDefault (filename m)
                       (js ''image_'' @ showNat (dateNow w t2) @ js ''.png''));
          cap = sanitizeMessage (orElse (orElse (caption m) (message m)) (Some []));
          sendOpts = (if cap = [] then Plain (options m) else WithCaption cap (options m));
          chatId = phoneNumberOf r;
          call = SendMessage chatId (MediaContent media) sendOpts
      in case sendMessageResult w t2 chatId (MediaContent media) sendOpts of
           Inr messageId \<Rightarrow> (Success chatId messageId, t2 @ [call, Delay 1000])
         | Inl e \<Rightarrow> (Failure r (errorMessage e), t2 @ [call]))"
proof -
  have ne: "js ''data:image/png;base64,aGVsbG8='' \<noteq> []" by (simp add: js_def)
  have a: "attempt w m r t = base64Branch w m (phoneNumberOf r) t"
    using assms ne by (simp add: attempt_def truthy_def)
  have d: "orDefault (base64Data m) [] = js ''data:image/png;base64,aGVsbG8=''"
    using assms ne by (simp add: orDefault_def)
  have n: "bufferFromBase64 (js ''aGVsbG8='') \<noteq> []"
    by (simp add: bufferFromBase64_png)
  have s: "showProp (StringValue (js ''png'')) = js ''png''"
    by (simp add: showProp_def)
  have j: "js ''.'' @ js ''png'' = js ''.png''"
    by (simp add: js_def)
  show ?thesis
    unfolding processRecipient_def a base64Branch_def d parseBase64Image_png
    by (simp add: Let_def n s j sendMedia_def clientSendMessage_def split: sum.splits)
qed


lemma png_job_turn:
  "processRecipient w (pngJob v opts) r t =
     (let t2 = t @ [BufferFrom (js ''aGVsbG8=''), BufferFrom (js ''aGVsbG8='')];
          media = MessageMedia (js ''image/png'') (js ''aGVsbG8='')
                    (js ''image_'' @ showNat (dateNow w t2) @ js ''.png'');
          chatId = phoneNumberOf r;
          call = SendMessage chatId (MediaContent media) (Plain opts)
      in case sendMessageResult w t2 chatId (MediaContent media) (Plain opts) of
           Inr messageId \<Rightarrow> (Success chatId messageId, t2 @ [call, Delay 1000])
         | Inl e \<Rightarrow> (Failure r (errorMessage e), t2 @ [call]))"
proof -
  have h: "type (pngJob v opts) = Some TypeBase64"
    "base64Data (pngJob v opts) = Some (js ''data:image/png;base64,aGVsbG8='')"
    by (simp_all add: pngJob_def)
  have c: "sanitizeMessage
             (orElse (orElse (caption (pngJob v opts)) (message (pngJob v opts))) (Some [])) = []"
    by (simp add: pngJob_def orElse_def truthy_def sanitizeMessage_def)
  have f: "orDefault (mimetype (pngJob v opts)) x = x" "orDefault (filename (pngJob v opts)) x = x"
    "options (pngJob v opts) = opts" for x
    by (simp_all add: pngJob_def orDefault_def)
  show ?thesis
    by (simp add: png_payload_turn [OF h] c f Let_def split: sum.splits)
qed

lemma png_job_calls:
  "sentTo (snd (forRecipients w (pngJob v opts) rs acc t)) = sentTo t @ map phoneNumberOf rs \<and>
   sentOptions (snd (forRecipients w (pngJob v opts) rs acc t)) =
     sentOptions t @ replicate (length rs) (Plain opts)"
proof (induction rs arbitrary: acc t)
  case Nil
  then show ?case by simp
next
  case (Cons r rs)
  obtain x t1 where p: "processRecipient w (pngJob v opts) r t = (x, t1)"
    by (cases "processRecipient w (pngJob v opts) r t")
  then have "sentTo t1 = sentTo t @ [phoneNumberOf r] \<and>
             sentOptions t1 = sentOptions t @ [Plain opts]"
    by (auto simp add: png_job_turn Let_def sentTo_append sentOptions_append split: sum.splits)
  with Cons.IH [of "acc @ [x]" t1] show ?case
    by (simp add: p replicate_app_Cons_same)
qed

text \<open>
  C8. For the job \<open>{type: "base64", base64Data: "data:image/png;base64,aGVsbG8="}\<close>
  with no caption, no message, no \<open>mimetype\<close> and no \<open>filename\<close>, whatever its
  recipients and options: \<open>sendWhatsAppMessage\<close> returns one result per recipient and
  calls \<open>client.sendMessage\<close> once per recipient, in order, each time with
  \<open>messageData.options\<close> as they are, so without a caption. For recipient \<open>i\<close> the two
  decoder calls are followed by the send of a media object of MIME type \<open>image/png\<close>,
  body \<open>aGVsbG8=\<close> and file name \<open>image_\<close>, the clock value, \<open>.png\<close>; the reply of the
  client decides between the success record with the pause and the failure record.
  For any job with this payload the caption is merged into the options exactly when
  the sanitized caption, or else message, is not empty.
\<close>

theorem png_job_sent_without_caption:
  assumes "recipientsOf v = Inr rs"
  shows "(\<exists>results t'. sendWhatsAppMessage w (pngJob v opts) t = (Inr results, t') \<and>
     length results = length rs \<and>
     t' = snd (forRecipients w (pngJob v opts) rs [] t) \<and>
     sentTo t' = sentTo t @ map phoneNumberOf rs \<and>
     sentOptions t' = sentOptions t @ replicate (length rs) (Plain opts) \<and>
     (\<forall>i<length rs.
        let t2 = snd (forRecipients w (pngJob v opts) (take i rs) [] t)
                 @ [BufferFrom (js ''aGVsbG8=''), BufferFrom (js ''aGVsbG8='')];
            media = MessageMedia (js ''image/png'') (js ''aGVsbG8='')
                      (js ''image_'' @ showNat (dateNow w t2) @ js ''.png'');
            chatId = phoneNumberOf (rs ! i);
            call = SendMessage chatId (MediaContent media) (Plain opts)
        in case sendMessageResult w t2 chatId (MediaContent media) (Plain opts) of
             Inr messageId \<Rightarrow>
               results ! i = Success chatId messageId \<and>
               snd (forRecipients w (pngJob v opts) (take (Suc i) rs) [] t)
                 = t2 @ [call, Delay 1000]
           | Inl e \<Rightarrow>
               results ! i = Failure (rs ! i) (errorMessage e) \<and>
               snd (forRecipients w (pngJob v opts) (take (Suc i) rs) [] t) = t2 @ [call])) \<and>
   (type m = Some TypeBase64 \<and>
    base64Data m = Some (js ''data:image/png;base64,aGVsbG8='') \<longrightarrow>
      processRecipient w m r u =
        (let t2 = u @ [BufferFrom (js ''aGVsbG8=''), BufferFrom (js ''aGVsbG8='')];
             media = MessageMedia (orDefault (mimetype m) (js ''image/png'')) (js ''aGVsbG8='')
                       (orDefault (filename m)
                          (js ''image_'' @ showNat (dateNow w t2) @ js ''.png''));
             cap = sanitizeMessage (orElse (orElse (caption m) (message m)) (Some []));
             sendOpts = (if cap = [] then Plain (options m) else WithCaption cap (options m));
             chatId = phoneNumberOf r;
             call = SendMessage chatId (MediaContent media) sendOpts
         in case sendMessageResult w t2 chatId (MediaContent media) sendOpts of
              Inr messageId \<Rightarrow> (Success chatId messageId, t2 @ [call, Delay 1000])
            | Inl e \<Rightarrow> (Failure r (errorMessage e), t2 @ [call])))"
proof (intro conjI impI)
  let ?m = "pngJob v opts"
  have r: "recipientsOf (to ?m) = Inr rs"
    using assms by (simp add: pngJob_def)
  note s = sendWhatsAppMessage_results [OF r, of w t]
  have l: "length (fst (forRecipients w ?m rs [] t)) = length rs"
    by (simp add: length_forRecipients)
  note c = png_job_calls [of w v opts rs "[]" t]
  have "let t2 = snd (forRecipients w ?m (take i rs) [] t)
                 @ [BufferFrom (js ''aGVsbG8=''), BufferFrom (js ''aGVsbG8='')];
            media = MessageMedia (js ''image/png'') (js ''aGVsbG8='')
                      (js ''image_'' @ showNat (dateNow w t2) @ js ''.png'');
            chatId = phoneNumberOf (rs ! i);
            call = SendMessage chatId (MediaContent media) (Plain opts)
        in case sendMessageResult w t2 chatId (MediaContent media) (Plain opts) of
             Inr messageId \<Rightarrow>
               fst (forRecipients w ?m rs [] t) ! i = Success chatId messageId \<and>
               snd (forRecipients w ?m (take (Suc i) rs) [] t) = t2 @ [call, Delay 1000]
           | Inl e \<Rightarrow>
               fst (forRecipients w ?m rs [] t) ! i = Failure (rs ! i) (errorMessage e) \<and>
               snd (forRecipients w ?m (take (Suc i) rs) [] t) = t2 @ [call]"
    if "i < length rs" for i
    unfolding forRecipients_nth [OF that] forRecipients_take_Suc [OF that] png_job_turn
    by (simp add: Let_def split: sum.splits)
  with s l c show "\<exists>results t'. sendWhatsAppMessage w (pngJob v opts) t = (Inr results, t') \<and>
     length results = length rs \<and>
     t' = snd (forRecipients w (pngJob v opts) rs [] t) \<and>
     sentTo t' = sentTo t @ map phoneNumberOf rs \<and>
     sentOptions t' = sentOptions t @ replicate (length rs) (Plain opts) \<and>
     (\<forall>i<length rs.
        let t2 = snd (forRecipients w (pngJob v opts) (take i rs) [] t)
                 @ [BufferFrom (js ''aGVsbG8=''), BufferFrom (js ''aGVsbG8='')];
            media = MessageMedia (js ''image/png'') (js ''aGVsbG8='')
                      (js ''image_'' @ showNat (dateNow w t2) @ js ''.png'');
            chatId = phoneNumberOf (rs ! i);
            call = SendMessage chatId (MediaContent media) (Plain opts)
        in case sendMessageResult w t2 chatId (MediaContent media) (Plain opts) of
             Inr messageId \<Rightarrow>
               results ! i = Success chatId messageId \<and>
               snd (forRecipients w (pngJob v opts) (take (Suc i) rs) [] t)
                 = t2 @ [call, Delay 1000]
           | Inl e \<Rightarrow>
               results ! i = Failure (rs ! i) (errorMessage e) \<and>
               snd (forRecipients w (pngJob v opts) (take (Suc i) rs) [] t) = t2 @ [call])"
    by blast
next
  assume "type m = Some TypeBase64 \<and>
    base64Data m = Some (js ''data:image/png;base64,aGVsbG8='')"
  then show "processRecipient w m r u =
        (let t2 = u @ [BufferFrom (js ''aGVsbG8=''), BufferFrom (js ''aGVsbG8='')];
             media = MessageMedia (orDefault (mimetype m) (js ''image/png'')) (js ''aGVsbG8='')
                       (orDefault (filename m)
                          (js ''image_'' @ showNat (dateNow w t2) @ js ''.png''));
             cap = sanitizeMessage (orElse (orElse (caption m) (message m)) (Some []));
             sendOpts = (if cap = [] then Plain (options m) else WithCaption cap (options m));
             chatId = phoneNumberOf r;
             call = SendMessage chatId (MediaContent media) sendOpts
         in case sendMessageResult w t2 chatId (MediaContent media) sendOpts of
              Inr messageId \<Rightarrow> (Success chatId messageId, t2 @ [call, Delay 1000])
            | Inl e \<Rightarrow> (Failure r (errorMessage e), t2 @ [call]))"
    by (intro png_payload_turn) simp_all
qed

lemma demoEnv_replies:
  "dateNow demoEnv x = 1700000000000"
  "sendMessageResult demoEnv [a, b] (js ''1555@c.us'') c sendOpts = Inr (js ''msg2'')"
  by (simp_all add: demoEnv_def js_def showNat.simps)

lemma png_file_name:
  "js ''image_'' @ showNat (1700000000000 :: nat) @ js ''.png'' = js ''image_1700000000000.png''"
  by (simp add: showNat.simps js_def)

lemma phoneNumberOf_1555: "phoneNumberOf (js ''1555'') = js ''1555@c.us''"
  by (simp add: phoneNumberOf_def js_def)

theorem png_job_sent_without_caption_witness:
  "recipientsOf (Some (ToArray [js ''1555''])) = Inr [js ''1555''] \<and>
   validateMessageData readyPngJob \<and>
   sendWhatsAppMessage demoEnv readyPngJob [] =
     (Inr [Success (js ''1555@c.us'') (js ''msg2'')],
      [BufferFrom (js ''aGVsbG8=''), BufferFrom (js ''aGVsbG8=''),
       SendMessage (js ''1555@c.us'')
         (MediaContent (MessageMedia (js ''image/png'') (js ''aGVsbG8='')
            (js ''image_1700000000000.png'')))
         (Plain None),
       Delay 1000]) \<and>
   type captionJob = Some TypeBase64 \<and>
   base64Data captionJob = Some (js ''data:image/png;base64,aGVsbG8='') \<and>
   processRecipient demoEnv captionJob (js ''1555'') [] =
     (Success (js ''1555@c.us'') (js ''msg2''),
      [BufferFrom (js ''aGVsbG8=''), BufferFrom (js ''aGVsbG8=''),
       SendMessage (js ''1555@c.us'')
         (MediaContent (MessageMedia (js ''image/png'') (js ''aGVsbG8='')
            (js ''image_1700000000000.png'')))
         (WithCaption (js ''look'') None),
       Delay 1000])"
proof -
  have h: "recipientsOf (Some (ToArray [js ''1555''])) = Inr [js ''1555'']"
    by (simp add: recipientsOf_def)
  have v: "validateMessageData readyPngJob"
    by (simp add: validateMessageData_def toMissing_def readyPngJob_def pngJob_def truthy_def
        js_def)
  have j: "type captionJob = Some TypeBase64 \<and>
           base64Data captionJob = Some (js ''data:image/png;base64,aGVsbG8='')"
    by (simp add: captionJob_def readyPngJob_def pngJob_def)
  have f: "orDefault (mimetype captionJob) x = x" "orDefault (filename captionJob) x = x"
    "options captionJob = None" for x
    by (simp_all add: captionJob_def readyPngJob_def pngJob_def orDefault_def)
  have c: "sanitizeMessage
             (orElse (orElse (caption captionJob) (message captionJob)) (Some [])) = js ''look''"
    by (simp add: captionJob_def readyPngJob_def pngJob_def orElse_def string_eval)
  have n: "js ''look'' \<noteq> []" by (simp add: js_def)
  note t = png_job_sent_without_caption
             [OF h, of demoEnv None "[]" captionJob "js ''1555''" "[]"]
  from t obtain results t'
    where s: "sendWhatsAppMessage demoEnv (pngJob (Some (ToArray [js ''1555''])) None) []
                = (Inr results, t')"
      and l: "length results = length [js ''1555'']"
      and e: "t' = snd (forRecipients demoEnv (pngJob (Some (ToArray [js ''1555''])) None)
                          [js ''1555''] [] [])"
      and a: "\<forall>i<length [js ''1555''].
        let t2 = snd (forRecipients demoEnv (pngJob (Some (ToArray [js ''1555''])) None)
                        (take i [js ''1555'']) [] [])
                 @ [BufferFrom (js ''aGVsbG8=''), BufferFrom (js ''aGVsbG8='')];
            media = MessageMedia (js ''image/png'') (js ''aGVsbG8='')
                      (js ''image_'' @ showNat (dateNow demoEnv t2) @ js ''.png'');
            chatId = phoneNumberOf ([js ''1555''] ! i);
            call = SendMessage chatId (MediaContent media) (Plain None)
        in case sendMessageResult demoEnv t2 chatId (MediaContent media) (Plain None) of
             Inr messageId \<Rightarrow>
               results ! i = Success chatId messageId \<and>
               snd (forRecipients demoEnv (pngJob (Some (ToArray [js ''1555''])) None)
                      (take (Suc i) [js ''1555'']) [] [])
                 = t2 @ [call, Delay 1000]
           | Inl e \<Rightarrow>
               results ! i = Failure ([js ''1555''] ! i) (errorMessage e) \<and>
               snd (forRecipients demoEnv (pngJob (Some (ToArray [js ''1555''])) None)
                      (take (Suc i) [js ''1555'']) [] []) = t2 @ [call]"
    by blast
  have zero: "0 < length [js ''1555'']" by simp
  from a [rule_format, OF zero]
  have slot: "results ! 0 = Success (js ''1555@c.us'') (js ''msg2'') \<and>
        snd (forRecipients demoEnv (pngJob (Some (ToArray [js ''1555''])) None)
               [js ''1555''] [] []) =
          [BufferFrom (js ''aGVsbG8=''), BufferFrom (js ''aGVsbG8=''),
           SendMessage (js ''1555@c.us'')
             (MediaContent (MessageMedia (js ''image/png'') (js ''aGVsbG8='')
                (js ''image_1700000000000.png'')))
             (Plain None),
           Delay 1000]"
    unfolding Let_def
    by (simp add: demoEnv_replies png_file_name phoneNumberOf_1555 del: forRecipients.simps(2))
  from l have "results = [results ! 0]"
    by (cases results) simp_all
  with slot have "results = [Success (js ''1555@c.us'') (js ''msg2'')]" by simp
  with s e slot have d: "sendWhatsAppMessage demoEnv readyPngJob [] =
     (Inr [Success (js ''1555@c.us'') (js ''msg2'')],
      [BufferFrom (js ''aGVsbG8=''), BufferFrom (js ''aGVsbG8=''),
       SendMessage (js ''1555@c.us'')
         (MediaContent (MessageMedia (js ''image/png'') (js ''aGVsbG8='')
            (js ''image_1700000000000.png'')))
         (Plain None),
       Delay 1000])"
    by (simp only: readyPngJob_def)
  from t j have "processRecipient demoEnv captionJob (js ''1555'') [] =
     (Success (js ''1555@c.us'') (js ''msg2''),
      [BufferFrom (js ''aGVsbG8=''), BufferFrom (js ''aGVsbG8=''),
       SendMessage (js ''1555@c.us'')
         (MediaContent (MessageMedia (js ''image/png'') (js ''aGVsbG8='')
            (js ''image_1700000000000.png'')))
         (WithCaption (js ''look'') None),
       Delay 1000])"
    by (simp add: Let_def f c n demoEnv_replies png_file_name phoneNumberOf_1555)
  with h v d j show ?thesis by (simp only: simp_thms)
qed

section \<open>Properties of the extension lookup\<close>

lemma mimetypeMap_distinct: "distinct (map fst mimetypeMap)"
  by (simp add: mimetypeMap_def js_def)

lemma mimetypeMap_nonempty: "(k, e) \<in> set mimetypeMap \<Longrightarrow> e \<noteq> []"
  by (auto simp add: mimetypeMap_def js_def)

lemma mimetypeMap_lowercase: "(k, e) \<in> set mimetypeMap \<Longrightarrow> toLowerCase k = k"
  by (auto simp add: mimetypeMap_def js_def toLowerCase_def lowerUnit_def)

text \<open>
  C6, as amended. \<open>getExtensionFromMimetype\<close> has no exception path and looks the
  lower-cased MIME type up: a type whose lower-cased form is a key of the table gets
  that key's extension (so does every key itself, the keys being lower-case), and a type
  whose lower-cased form is neither a key nor the name of a member of
  \<open>Object.prototype\<close> gets \<open>bin\<close>.
\<close>

theorem extension_lookup_is_case_insensitive_with_fallback:
  "((k, e) \<in> set mimetypeMap \<longrightarrow> getExtensionFromMimetype k = StringValue e) \<and>
   ((toLowerCase x, e') \<in> set mimetypeMap \<longrightarrow> getExtensionFromMimetype x = StringValue e') \<and>
   (toLowerCase y \<notin> fst ` set mimetypeMap \<and> toLowerCase y \<notin> set objectPrototypeNames \<longrightarrow>
      getExtensionFromMimetype y = StringValue (js ''bin''))"
proof (intro conjI impI)
  have hit: "getExtensionFromMimetype z = StringValue v" if "(toLowerCase z, v) \<in> set mimetypeMap" for z v
  proof -
    from that have "map_of mimetypeMap (toLowerCase z) = Some v"
      by (simp add: mimetypeMap_distinct)
    with mimetypeMap_nonempty [OF that] show ?thesis
      by (simp add: getExtensionFromMimetype_def getProperty_def)
  qed
  show "getExtensionFromMimetype k = StringValue e" if "(k, e) \<in> set mimetypeMap"
    using that hit [of k e] by (simp add: mimetypeMap_lowercase [OF that])
  show "getExtensionFromMimetype x = StringValue e'" if "(toLowerCase x, e') \<in> set mimetypeMap"
    using that by (rule hit)
  show "getExtensionFromMimetype y = StringValue (js ''bin'')"
    if "toLowerCase y \<notin> fst ` set mimetypeMap \<and> toLowerCase y \<notin> set objectPrototypeNames"
  proof -
    from that have "map_of mimetypeMap (toLowerCase y) = None"
      by (simp add: map_of_eq_None_iff)
    with that show ?thesis
      by (simp add: getExtensionFromMimetype_def getProperty_def)
  qed
qed

theorem extension_lookup_is_case_insensitive_with_fallback_witness:
  "(js ''image/png'', js ''png'') \<in> set mimetypeMap \<and>
   getExtensionFromMimetype (js ''image/png'') = StringValue (js ''png'') \<and>
   toLowerCase (js ''Image/PNG'') = js ''image/png'' \<and>
   getExtensionFromMimetype (js ''Image/PNG'') = StringValue (js ''png'') \<and>
   toLowerCase (js ''text/plain'') \<notin> fst ` set mimetypeMap \<and>
   toLowerCase (js ''text/plain'') \<notin> set objectPrototypeNames \<and>
   getExtensionFromMimetype (js ''text/plain'') = StringValue (js ''bin'')"
proof -
  have k: "(js ''image/png'', js ''png'') \<in> set mimetypeMap"
    by (simp add: mimetypeMap_def)
  have l: "toLowerCase (js ''Image/PNG'') = js ''image/png''"
    by (simp add: toLowerCase_def lowerUnit_def js_def)
  have u: "toLowerCase (js ''text/plain'') \<notin> fst ` set mimetypeMap"
    "toLowerCase (js ''text/plain'') \<notin> set objectPrototypeNames"
    by (simp_all add: toLowerCase_def lowerUnit_def js_def mimetypeMap_def
        objectPrototypeNames_def)
  from extension_lookup_is_case_insensitive_with_fallback
         [of "js ''image/png''" "js ''png''" "js ''Image/PNG''" "js ''png''" "js ''text/plain''"]
    k l u
  show ?thesis by (simp only: simp_thms)
qed

text \<open>
  C6 as stated fails: \<open>IMAGE/PNG\<close> is not a key of the table, and its extension is
  \<open>png\<close>, not \<open>bin\<close>.
\<close>

theorem extension_of_uppercase_type:
  "js ''IMAGE/PNG'' \<notin> fst ` set mimetypeMap \<and>
   getExtensionFromMimetype (js ''IMAGE/PNG'') = StringValue (js ''png'')"
  by (simp add: getExtensionFromMimetype_def getProperty_def mimetypeMap_def toLowerCase_def
      lowerUnit_def js_def)

lemma extension_of_constructor:
  "getExtensionFromMimetype (js ''constructor'') = Inherited (js ''constructor'')"
  by (simp add: getExtensionFromMimetype_def getProperty_def mimetypeMap_def toLowerCase_def
      lowerUnit_def js_def objectPrototypeNames_def)

section \<open>Properties of the queue consumer\<close>

text \<open>
  C2. The consumer routes a message in this order. Content that is not JSON, or is
  \<open>null\<close>, or fails \<open>validateMessageData\<close>: \<open>nack\<close> without requeue. A valid job while
  \<open>client.info\<close> is unset: \<open>nack\<close> with requeue. A valid job with the client ready:
  \<open>ack\<close> whenever \<open>sendWhatsAppMessage\<close> returns its results, which it does for every
  list of recipients and whatever the results are, and \<open>nack\<close> without requeue when it
  throws, which it does when the recipients cannot be read. On an open channel \<open>ack\<close>
  and \<open>nack\<close> are the calls on the channel.
\<close>

theorem consumer_routing:
  "consumeMessages w (Some ParseError) t = nack w False t \<and>
   consumeMessages w (Some ParsedNull) t = nack w False t \<and>
   (\<not> validateMessageData m \<longrightarrow> consumeMessages w (Some (Parsed m)) t = nack w False t) \<and>
   (validateMessageData m \<and> \<not> clientInfo w t \<longrightarrow>
      consumeMessages w (Some (Parsed m)) t = nack w True t) \<and>
   (validateMessageData m \<and> clientInfo w t \<longrightarrow>
      (\<forall>results t'. sendWhatsAppMessage w m t = (Inr results, t') \<longrightarrow>
         consumeMessages w (Some (Parsed m)) t = ack w t') \<and>
      (\<forall>e t'. sendWhatsAppMessage w m t = (Inl e, t') \<longrightarrow>
         consumeMessages w (Some (Parsed m)) t = nack w False t') \<and>
      (\<forall>rs. recipientsOf (to m) = Inr rs \<longrightarrow>
         consumeMessages w (Some (Parsed m)) t = ack w (snd (forRecipients w m rs [] t))) \<and>
      (\<forall>e. recipientsOf (to m) = Inl e \<longrightarrow>
         consumeMessages w (Some (Parsed m)) t = nack w False t)) \<and>
   (rabbitChannel w u \<longrightarrow> ack w u = u @ [Ack] \<and> nack w requeue u = u @ [Nack requeue])"
  by (simp add: consumeMessages_def ack_def nack_def sendWhatsAppMessage_def case_prod_beta)

lemma validate_textJob: "validateMessageData textJob" "validateMessageData allBadJob"
  "validateMessageData numberJob" "\<not> validateMessageData noContentJob"
  by (simp_all add: validateMessageData_def toMissing_def textJob_def allBadJob_def
      numberJob_def noContentJob_def truthy_def js_def)

lemma processRecipient_bad:
  "processRecipient demoEnv allBadJob (js ''bad'') [] =
     (Failure (js ''bad'') (js ''invalid wid''),
      [SendMessage (js ''bad@c.us'') (TextContent (js ''hi'')) (Plain None)])"
  by (simp add: processRecipient_def attempt_def textBranch_def clientSendMessage_def
      phoneNumberOf_def allBadJob_def textJob_def demoEnv_def newError_def errorMessage_def
      string_eval)

lemma dispatch_allBadJob:
  "sendWhatsAppMessage demoEnv allBadJob [] =
     (Inr [Failure (js ''bad'') (js ''invalid wid'')],
      [SendMessage (js ''bad@c.us'') (TextContent (js ''hi'')) (Plain None)])"
proof -
  have "recipientsOf (to allBadJob) = Inr [js ''bad'']"
    by (simp add: recipientsOf_def allBadJob_def)
  then show ?thesis
    by (simp add: sendWhatsAppMessage_def processRecipient_bad)
qed

lemma dispatch_numberJob:
  "sendWhatsAppMessage demoEnv numberJob [] =
     (Inl (ErrorObject (js ''TypeError'') (js ''messageData.to.split is not a function'')), [])"
  by (simp add: sendWhatsAppMessage_def recipientsOf_def numberJob_def)

theorem consumer_routing_witness:
  "consumeMessages demoEnv (Some ParseError) [] = [Nack False] \<and>
   \<not> validateMessageData noContentJob \<and>
   consumeMessages demoEnv (Some (Parsed noContentJob)) [] = [Nack False] \<and>
   validateMessageData textJob \<and> \<not> clientInfo notReadyEnv [] \<and>
   consumeMessages notReadyEnv (Some (Parsed textJob)) [] = [Nack True] \<and>
   validateMessageData allBadJob \<and> clientInfo demoEnv [] \<and>
   consumeMessages demoEnv (Some (Parsed allBadJob)) [] =
     [SendMessage (js ''bad@c.us'') (TextContent (js ''hi'')) (Plain None), Ack] \<and>
   validateMessageData numberJob \<and>
   consumeMessages demoEnv (Some (Parsed numberJob)) [] = [Nack False]"
proof -
  have ch: "rabbitChannel demoEnv x" "rabbitChannel notReadyEnv x" for x
    by (simp_all add: demoEnv_def notReadyEnv_def)
  have rd: "clientInfo demoEnv []" "\<not> clientInfo notReadyEnv []"
    by (simp_all add: demoEnv_def notReadyEnv_def)
  note r = consumer_routing
  from r [of demoEnv "[]" noContentJob "[]" False] ch
  have 1: "consumeMessages demoEnv (Some ParseError) [] = [Nack False]" by simp
  from r [of demoEnv "[]" noContentJob "[]" False] ch validate_textJob
  have 2: "consumeMessages demoEnv (Some (Parsed noContentJob)) [] = [Nack False]" by simp
  from r [of notReadyEnv "[]" textJob "[]" True] ch rd validate_textJob
  have 3: "consumeMessages notReadyEnv (Some (Parsed textJob)) [] = [Nack True]" by simp
  from r [of demoEnv "[]" allBadJob "[SendMessage (js ''bad@c.us'') (TextContent (js ''hi'')) (Plain None)]"]
    ch rd validate_textJob dispatch_allBadJob
  have 4: "consumeMessages demoEnv (Some (Parsed allBadJob)) [] =
     [SendMessage (js ''bad@c.us'') (TextContent (js ''hi'')) (Plain None), Ack]" by simp
  from r [of demoEnv "[]" numberJob "[]" False] ch rd validate_textJob dispatch_numberJob
  have 5: "consumeMessages demoEnv (Some (Parsed numberJob)) [] = [Nack False]" by simp
  from 1 2 3 4 5 rd validate_textJob show ?thesis by (simp only: simp_thms)
qed

end
